theory Spec2Isabelle
  imports Complex_Main
begin

section \<open>JavaScript values\<close>

text \<open>
  The evaluation code handles values of type \<^verbatim>\<open>unknown\<close>: dataset inputs, task outputs and
  scorer results. \<open>jsval\<close> is the part of the JavaScript value space the embedding covers:
  the primitives \<^verbatim>\<open>undefined\<close>, \<^verbatim>\<open>null\<close>, booleans, numbers, strings and symbols, arrays,
  and objects that hold own enumerable data properties only. \<open>JObj\<close> is an object whose
  prototype is \<^verbatim>\<open>Object.prototype\<close> (an object literal, the result of \<^verbatim>\<open>JSON.parse\<close>);
  \<open>JBare\<close> is an object without a prototype (\<^verbatim>\<open>Object.create(null)\<close>). Both list their
  properties in enumeration order, with distinct keys.

  Outside the embedding: functions, bigints, promises, accessor properties, proxies and
  class instances as values; arrays with properties besides their elements. A number is an
  IEEE double: \<open>JNum x\<close> is the finite double of value \<open>x\<close>, \<open>JInf True\<close> and
  \<open>JInf False\<close> are \<^verbatim>\<open>Infinity\<close> and \<^verbatim>\<open>-Infinity\<close>, \<open>JNaN\<close> is \<^verbatim>\<open>NaN\<close>; the two
  zeros are not told apart. A string is a list of characters, one per UTF-16 code unit.
\<close>

datatype jsval =
    JUndefined
  | JNull
  | JBool bool
  | JNum real
  | JInf bool
  | JNaN
  | JStr string
  | JSym string
  | JArr "jsval list"
  | JObj "(string \<times> jsval) list"
  | JBare "(string \<times> jsval) list"

text \<open>
  What a \<^verbatim>\<open>throw\<close> carries: an \<^verbatim>\<open>Error\<close> instance, given by its \<^verbatim>\<open>name\<close> and
  \<^verbatim>\<open>message\<close>, or any other value. A function that may throw returns \<open>thrown + 'a\<close>.
\<close>

datatype thrown =
    ThrownError string string
  | ThrownValue jsval

text \<open>
  The builtins the embedding takes as parameters. Double arithmetic rounds, so it is not
  the arithmetic of the reals: \<open>number_add env x y\<close> is the double sum of two finite
  doubles (a finite double, or an infinity when the sum overflows) and
  \<open>number_div env x y\<close> is the double quotient of a finite double by a positive count.
  \<open>number_text\<close> is the text of a finite number (\<^verbatim>\<open>Number.prototype.toString\<close>) and
  \<open>text_number\<close> the number a string converts to. The others are the environment
  variable \<^verbatim>\<open>OPENSEARCH_PROJECT\<close> and the trace and span identifiers the tracer gives
  the span of item \<open>i\<close>.
\<close>

record js_env =
  number_add :: "real \<Rightarrow> real \<Rightarrow> jsval"
  number_div :: "real \<Rightarrow> real \<Rightarrow> real"
  number_text :: "real \<Rightarrow> string"
  text_number :: "string \<Rightarrow> jsval"
  project_var :: "string option"
  item_span_context :: "nat \<Rightarrow> string \<times> string"

text \<open>The \<^verbatim>\<open>TypeError\<close>s the runtime raises (message texts as V8 words them).\<close>

definition symbol_to_string_error :: thrown where
  "symbol_to_string_error = ThrownError ''TypeError'' ''Cannot convert a Symbol value to a string''"

definition symbol_to_number_error :: thrown where
  "symbol_to_number_error = ThrownError ''TypeError'' ''Cannot convert a Symbol value to a number''"

definition to_primitive_error :: thrown where
  "to_primitive_error = ThrownError ''TypeError'' ''Cannot convert object to primitive value''"

definition not_a_function_error :: "string \<Rightarrow> thrown" where
  "not_a_function_error what = ThrownError ''TypeError'' (what @ '' is not a function'')"

subsection \<open>Conversion to text\<close>

fun comma_separated :: "string list \<Rightarrow> string" where
  "comma_separated [] = []"
| "comma_separated [s] = s"
| "comma_separated (s # t # ss) = s @ '','' @ comma_separated (t # ss)"

text \<open>
  \<open>js_ToString\<close> is the abstract operation \<^verbatim>\<open>ToString\<close>. A symbol has no text. An array
  joins the texts of its elements with commas, \<^verbatim>\<open>undefined\<close> and \<^verbatim>\<open>null\<close> counting as
  empty. An object is converted by its \<^verbatim>\<open>toString\<close> method: the inherited one answers
  \<^verbatim>\<open>[object Object]\<close>; an own property of that name is not callable here (no function is a
  value of the embedding) and \<^verbatim>\<open>valueOf\<close> cannot step in (the inherited one returns the
  object, an own one is not callable), so the conversion throws. An object without a
  prototype has neither method.
\<close>

fun js_ToString :: "js_env \<Rightarrow> jsval \<Rightarrow> thrown + string"
  and js_join :: "js_env \<Rightarrow> jsval list \<Rightarrow> thrown + string list" where
  "js_ToString env JUndefined = Inr ''undefined''"
| "js_ToString env JNull = Inr ''null''"
| "js_ToString env (JBool b) = Inr (if b then ''true'' else ''false'')"
| "js_ToString env (JNum x) = Inr (number_text env x)"
| "js_ToString env (JInf positive) = Inr (if positive then ''Infinity'' else ''-Infinity'')"
| "js_ToString env JNaN = Inr ''NaN''"
| "js_ToString env (JStr s) = Inr s"
| "js_ToString env (JSym d) = Inl symbol_to_string_error"
| "js_ToString env (JArr xs) =
     (case js_join env xs of Inl e \<Rightarrow> Inl e | Inr ss \<Rightarrow> Inr (comma_separated ss))"
| "js_ToString env (JObj ps) =
     (if map_of ps ''toString'' \<noteq> None then Inl to_primitive_error
      else Inr ''[object Object]'')"
| "js_ToString env (JBare ps) = Inl to_primitive_error"
| "js_join env [] = Inr []"
| "js_join env (x # xs) =
     (case (if x = JUndefined \<or> x = JNull then Inr [] else js_ToString env x) of
        Inl e \<Rightarrow> Inl e
      | Inr s \<Rightarrow> (case js_join env xs of Inl e \<Rightarrow> Inl e | Inr ss \<Rightarrow> Inr (s # ss)))"

text \<open>\<^verbatim>\<open>String(v)\<close>: as \<^verbatim>\<open>ToString\<close>, but a symbol is described instead of refused.\<close>

definition js_String :: "js_env \<Rightarrow> jsval \<Rightarrow> thrown + string" where
  "js_String env v =
     (case v of JSym d \<Rightarrow> Inr (''Symbol('' @ d @ '')'') | _ \<Rightarrow> js_ToString env v)"

text \<open>
  The text of a caught value. \<^verbatim>\<open>Error.prototype.toString\<close> joins name and message;
  \<open>thrown_String\<close> is \<^verbatim>\<open>String(err)\<close> and \<open>thrown_ToString\<close> is the conversion a template
  literal \<^verbatim>\<open>`${err}`\<close> applies.
\<close>

definition error_text :: "string \<Rightarrow> string \<Rightarrow> string" where
  "error_text n m = (if n = [] then m else if m = [] then n else n @ '': '' @ m)"

fun thrown_String :: "js_env \<Rightarrow> thrown \<Rightarrow> thrown + string" where
  "thrown_String env (ThrownError n m) = Inr (error_text n m)"
| "thrown_String env (ThrownValue v) = js_String env v"

fun thrown_ToString :: "js_env \<Rightarrow> thrown \<Rightarrow> thrown + string" where
  "thrown_ToString env (ThrownError n m) = Inr (error_text n m)"
| "thrown_ToString env (ThrownValue v) = js_ToString env v"

subsection \<open>Properties and operators\<close>

text \<open>
  \<open>js_get v k\<close> is the property read \<^verbatim>\<open>v.k\<close> and \<open>has_key k v\<close> is \<^verbatim>\<open>k in v\<close>, for the
  keys the code uses (\<^verbatim>\<open>name\<close>, \<^verbatim>\<open>value\<close>, \<^verbatim>\<open>label\<close>, \<^verbatim>\<open>score\<close>, \<^verbatim>\<open>choice\<close>,
  \<^verbatim>\<open>rationale\<close>, \<^verbatim>\<open>explanation\<close>, \<^verbatim>\<open>metadata\<close>): none of them is inherited from
  \<^verbatim>\<open>Object.prototype\<close> or \<^verbatim>\<open>Array.prototype\<close>, so only own properties count, and an
  array has none of them.
\<close>

fun own_props :: "jsval \<Rightarrow> (string \<times> jsval) list" where
  "own_props (JObj ps) = ps"
| "own_props (JBare ps) = ps"
| "own_props _ = []"

definition js_get :: "jsval \<Rightarrow> string \<Rightarrow> jsval" where
  "js_get v k = (case map_of (own_props v) k of Some x \<Rightarrow> x | None \<Rightarrow> JUndefined)"

definition has_key :: "string \<Rightarrow> jsval \<Rightarrow> bool" where
  "has_key k v = (map_of (own_props v) k \<noteq> None)"

text \<open>\<^verbatim>\<open>typeof v === "object" && v !== null\<close>\<close>

fun object_like :: "jsval \<Rightarrow> bool" where
  "object_like (JArr xs) = True"
| "object_like (JObj ps) = True"
| "object_like (JBare ps) = True"
| "object_like _ = False"

fun is_string :: "jsval \<Rightarrow> bool" where
  "is_string (JStr s) = True"
| "is_string _ = False"

fun is_number :: "jsval \<Rightarrow> bool" where
  "is_number (JNum x) = True"
| "is_number (JInf positive) = True"
| "is_number JNaN = True"
| "is_number _ = False"

text \<open>\<^verbatim>\<open>typeof v === "object" && v !== null && !Array.isArray(v)\<close>\<close>

fun plain_object :: "jsval \<Rightarrow> bool" where
  "plain_object (JObj ps) = True"
| "plain_object (JBare ps) = True"
| "plain_object _ = False"

text \<open>\<^verbatim>\<open>a ?? b\<close>\<close>

definition nullish :: "jsval \<Rightarrow> jsval \<Rightarrow> jsval" where
  "nullish a b = (if a = JUndefined \<or> a = JNull then b else a)"

section \<open>The score adapter (protocol.ts)\<close>

definition isScore :: "jsval \<Rightarrow> bool" where
  "isScore v =
     (object_like v \<and> is_string (js_get v ''name'') \<and> (has_key ''value'' v \<or> has_key ''label'' v))"

definition isAutoEvalsResult :: "jsval \<Rightarrow> bool" where
  "isAutoEvalsResult v = (object_like v \<and> has_key ''score'' v \<and> is_number (js_get v ''score''))"

definition isPhoenixEvalsResult :: "jsval \<Rightarrow> bool" where
  "isPhoenixEvalsResult v =
     (object_like v \<and> is_string (js_get v ''label'') \<and> is_string (js_get v ''explanation''))"

definition consumed_keys :: "string list" where
  "consumed_keys = [''value'', ''score'', ''label'', ''rationale'', ''explanation'']"

text \<open>
  A Score is a JavaScript object; the object literals of \<^verbatim>\<open>adaptScore\<close> list every key they
  name, also where the stored value is \<^verbatim>\<open>undefined\<close>.
\<close>

definition adaptScore :: "js_env \<Rightarrow> string \<Rightarrow> jsval \<Rightarrow> thrown + jsval" where
  "adaptScore env scorerName result =
     (if isScore result then Inr result
      else if isAutoEvalsResult result then
        Inr (JObj [(''name'', JStr scorerName),
                   (''value'', js_get result ''score''),
                   (''label'', nullish (js_get result ''choice'') (js_get result ''label'')),
                   (''rationale'', js_get result ''rationale''),
                   (''metadata'', nullish (js_get result ''metadata'') (JObj []))])
      else if isPhoenixEvalsResult result then
        Inr (JObj [(''name'', JStr scorerName),
                   (''value'', js_get result ''score''),
                   (''label'', js_get result ''label''),
                   (''rationale'', js_get result ''explanation'')])
      else if is_number result then
        Inr (JObj [(''name'', JStr scorerName), (''value'', result)])
      else if plain_object result then
        Inr (JObj [(''name'', JStr scorerName),
                   (''value'', nullish (js_get result ''value'') (js_get result ''score'')),
                   (''label'', js_get result ''label''),
                   (''rationale'',
                      nullish (js_get result ''rationale'') (js_get result ''explanation'')),
                   (''metadata'',
                      JObj (filter (\<lambda>(k, v). k \<notin> set consumed_keys) (own_props result)))])
      else
        (case js_String env result of
           Inl e \<Rightarrow> Inl e
         | Inr s \<Rightarrow> Inr (JObj [(''name'', JStr scorerName),
                              (''metadata'', JObj [(''raw'', JStr s)])])))"

section \<open>Operators used by the orchestrator\<close>

text \<open>Truthiness, as the conditions \<^verbatim>\<open>if (scoreObj.label)\<close> and \<^verbatim>\<open>if (rationale)\<close> test it.\<close>

fun js_truthy :: "jsval \<Rightarrow> bool" where
  "js_truthy JUndefined = False"
| "js_truthy JNull = False"
| "js_truthy (JBool b) = b"
| "js_truthy (JNum x) = (x \<noteq> 0)"
| "js_truthy JNaN = False"
| "js_truthy (JStr s) = (s \<noteq> [])"
| "js_truthy _ = True"

text \<open>
  \<^verbatim>\<open>v.slice(0, n)\<close>: strings and arrays have the method; every other value of the embedding
  has no callable \<^verbatim>\<open>slice\<close>, and the call throws. \<open>what\<close> is the expression the message
  names.
\<close>

fun js_slice :: "nat \<Rightarrow> string \<Rightarrow> jsval \<Rightarrow> thrown + jsval" where
  "js_slice n what (JStr s) = Inr (JStr (take n s))"
| "js_slice n what (JArr xs) = Inr (JArr (take n xs))"
| "js_slice n what JUndefined =
     Inl (ThrownError ''TypeError'' ''Cannot read properties of undefined'')"
| "js_slice n what JNull = Inl (ThrownError ''TypeError'' ''Cannot read properties of null'')"
| "js_slice n what _ = Inl (not_a_function_error what)"

text \<open>
  The operator \<^verbatim>\<open>+\<close>: both operands become primitives (an array or object through its
  text); if one of them is a string the texts are concatenated, otherwise the numbers are
  added.
\<close>

definition js_ToPrimitive :: "js_env \<Rightarrow> jsval \<Rightarrow> thrown + jsval" where
  "js_ToPrimitive env v =
     (if object_like v
      then (case js_ToString env v of Inl e \<Rightarrow> Inl e | Inr s \<Rightarrow> Inr (JStr s))
      else Inr v)"

fun prim_ToNumber :: "js_env \<Rightarrow> jsval \<Rightarrow> thrown + jsval" where
  "prim_ToNumber env JUndefined = Inr JNaN"
| "prim_ToNumber env JNull = Inr (JNum 0)"
| "prim_ToNumber env (JBool b) = Inr (JNum (if b then 1 else 0))"
| "prim_ToNumber env (JNum x) = Inr (JNum x)"
| "prim_ToNumber env (JInf positive) = Inr (JInf positive)"
| "prim_ToNumber env JNaN = Inr JNaN"
| "prim_ToNumber env (JStr s) = Inr (text_number env s)"
| "prim_ToNumber env (JSym d) = Inl symbol_to_number_error"
| "prim_ToNumber env v = Inl to_primitive_error"

definition js_ToNumber :: "js_env \<Rightarrow> jsval \<Rightarrow> thrown + jsval" where
  "js_ToNumber env v =
     (case js_ToPrimitive env v of Inl e \<Rightarrow> Inl e | Inr p \<Rightarrow> prim_ToNumber env p)"

text \<open>
  The sum of two numbers. Finite doubles are added by the environment's double addition;
  an infinity absorbs a finite number, opposite infinities give \<^verbatim>\<open>NaN\<close>, and \<^verbatim>\<open>NaN\<close>
  absorbs everything.
\<close>

fun num_add :: "js_env \<Rightarrow> jsval \<Rightarrow> jsval \<Rightarrow> jsval" where
  "num_add env (JNum x) (JNum y) = number_add env x y"
| "num_add env (JNum x) (JInf positive) = JInf positive"
| "num_add env (JInf positive) (JNum y) = JInf positive"
| "num_add env (JInf p) (JInf q) = (if p = q then JInf p else JNaN)"
| "num_add env _ _ = JNaN"

definition js_plus :: "js_env \<Rightarrow> jsval \<Rightarrow> jsval \<Rightarrow> thrown + jsval" where
  "js_plus env a b =
     (case js_ToPrimitive env a of Inl e \<Rightarrow> Inl e | Inr pa \<Rightarrow>
     (case js_ToPrimitive env b of Inl e \<Rightarrow> Inl e | Inr pb \<Rightarrow>
        if is_string pa \<or> is_string pb then
          (case js_ToString env pa of Inl e \<Rightarrow> Inl e | Inr sa \<Rightarrow>
          (case js_ToString env pb of Inl e \<Rightarrow> Inl e | Inr sb \<Rightarrow> Inr (JStr (sa @ sb))))
        else
          (case prim_ToNumber env pa of Inl e \<Rightarrow> Inl e | Inr na \<Rightarrow>
          (case prim_ToNumber env pb of Inl e \<Rightarrow> Inl e | Inr nb \<Rightarrow> Inr (num_add env na nb)))))"

text \<open>
  \<^verbatim>\<open>a / n\<close> for a count \<open>n\<close>, as the average divides by \<^verbatim>\<open>values.length\<close>. A finite
  double is divided by a positive count with the environment's double division; a division
  by zero gives \<^verbatim>\<open>NaN\<close> for zero and an infinity otherwise; an infinity stays what it is.
\<close>

fun num_div :: "js_env \<Rightarrow> jsval \<Rightarrow> nat \<Rightarrow> jsval" where
  "num_div env (JNum x) n =
     (if n = 0 then (if x = 0 then JNaN else JInf (0 < x))
      else JNum (number_div env x (real n)))"
| "num_div env (JInf positive) n = JInf positive"
| "num_div env _ n = JNaN"

definition js_div :: "js_env \<Rightarrow> jsval \<Rightarrow> nat \<Rightarrow> thrown + jsval" where
  "js_div env a n =
     (case js_ToNumber env a of Inl e \<Rightarrow> Inl e | Inr x \<Rightarrow> Inr (num_div env x n))"

subsection \<open>Objects used as dictionaries\<close>

text \<open>
  \<^verbatim>\<open>evalResult.scores\<close>, \<^verbatim>\<open>scoreTotals\<close>, \<^verbatim>\<open>summary.averages\<close> and the attribute
  object of \<^verbatim>\<open>score()\<close> start as \<^verbatim>\<open>{}\<close> and are filled by assignment. The embedding keeps
  the own properties, in the order \<^verbatim>\<open>Object.entries\<close> lists them: keys that are array
  indices first, ascending, then the other keys in the order of their creation. An
  assignment to the key \<^verbatim>\<open>__proto__\<close> runs the inherited setter and creates no own
  property. A read finds the members of \<^verbatim>\<open>Object.prototype\<close> under their names when the
  object has no own property of that name.
\<close>

definition object_prototype_keys :: "string list" where
  "object_prototype_keys =
     [''constructor'', ''hasOwnProperty'', ''isPrototypeOf'', ''propertyIsEnumerable'',
      ''toLocaleString'', ''toString'', ''valueOf'', ''__proto__'',
      ''__defineGetter__'', ''__defineSetter__'', ''__lookupGetter__'', ''__lookupSetter__'']"

definition is_digit :: "char \<Rightarrow> bool" where
  "is_digit c = (48 \<le> (of_char c :: nat) \<and> (of_char c :: nat) \<le> 57)"

definition decimal_value :: "string \<Rightarrow> nat" where
  "decimal_value s = foldl (\<lambda>n c. 10 * n + ((of_char c :: nat) - 48)) 0 s"

text \<open>An array index is the canonical decimal text of an integer below \<open>2^32 - 1\<close>.\<close>

definition array_index :: "string \<Rightarrow> nat option" where
  "array_index k =
     (if k \<noteq> [] \<and> list_all is_digit k \<and> (k = ''0'' \<or> hd k \<noteq> CHR ''0'')
         \<and> decimal_value k < 4294967295
      then Some (decimal_value k) else None)"

definition index_below :: "nat \<Rightarrow> string \<times> 'v \<Rightarrow> bool" where
  "index_below n kv = (case array_index (fst kv) of Some m \<Rightarrow> m < n | None \<Rightarrow> False)"

fun dict_replace :: "string \<Rightarrow> 'v \<Rightarrow> (string \<times> 'v) list \<Rightarrow> (string \<times> 'v) list" where
  "dict_replace k v [] = []"
| "dict_replace k v (p # ps) = (if fst p = k then (k, v) # ps else p # dict_replace k v ps)"

definition dict_assign :: "(string \<times> 'v) list \<Rightarrow> string \<Rightarrow> 'v \<Rightarrow> (string \<times> 'v) list" where
  "dict_assign d k v =
     (if map_of d k \<noteq> None then dict_replace k v d
      else if k = ''__proto__'' then d
      else (case array_index k of
              None \<Rightarrow> d @ [(k, v)]
            | Some n \<Rightarrow> takeWhile (index_below n) d @ [(k, v)] @ dropWhile (index_below n) d))"

section \<open>Spans\<close>

text \<open>
  The tracer is used through \<^verbatim>\<open>startActiveSpan\<close>, \<^verbatim>\<open>setAttribute\<close>, \<^verbatim>\<open>setStatus\<close>,
  \<^verbatim>\<open>recordException\<close> and \<^verbatim>\<open>end\<close>; these calls of the OpenTelemetry API are taken not to
  throw. A \<open>span\<close> records what the code hands to the tracer for one span. The functions
  below return the spans that were ended, in the order of their end; a span still open when
  an exception leaves \<^verbatim>\<open>evaluate\<close> is never ended and is not listed. Calls of
  \<^verbatim>\<open>console.warn\<close> are followed only as far as they can throw (the template literal that
  builds the message).
\<close>

record span =
  span_name :: string
  span_attributes :: "(string \<times> jsval) list"
  span_status :: "string option"
  span_exception :: "thrown option"

section \<open>Score submission (score.ts)\<close>

record ScoreOptions =
  so_name :: string
  so_value :: jsval
  so_traceId :: "string option"
  so_spanId :: "string option"
  so_label :: jsval
  so_dataType :: "string option"
  so_source :: "string option"
  so_comment :: jsval
  so_rationale :: jsval
  so_metadata :: "(string \<times> jsval) list option"
  so_project :: "string option"

definition or_default :: "'a option \<Rightarrow> 'a \<Rightarrow> 'a" where
  "or_default x d = (case x of Some y \<Rightarrow> y | None \<Rightarrow> d)"

definition assign_if ::
  "bool \<Rightarrow> string \<Rightarrow> jsval \<Rightarrow> (string \<times> jsval) list \<Rightarrow> (string \<times> jsval) list" where
  "assign_if c k v d = (if c then dict_assign d k v else d)"

definition nonempty_text :: "string option \<Rightarrow> bool" where
  "nonempty_text x = (case x of Some s \<Rightarrow> s \<noteq> [] | None \<Rightarrow> False)"

fun metadata_attrs ::
  "js_env \<Rightarrow> (string \<times> jsval) list \<Rightarrow> (string \<times> jsval) list \<Rightarrow> thrown + (string \<times> jsval) list" where
  "metadata_attrs env [] d = Inr d"
| "metadata_attrs env (kv # rest) d =
     (case js_String env (snd kv) of
        Inl e \<Rightarrow> Inl e
      | Inr s \<Rightarrow> metadata_attrs env rest (dict_assign d (''score.metadata.'' @ fst kv) (JStr s)))"

definition score_attrs :: "js_env \<Rightarrow> ScoreOptions \<Rightarrow> thrown + (string \<times> jsval) list" where
  "score_attrs env options =
     (let a0 = [(''opensearch.score'', JBool True),
                (''score.name'', JStr (so_name options)),
                (''score.data_type'', JStr (or_default (so_dataType options) ''NUMERIC'')),
                (''score.source'', JStr (or_default (so_source options) ''sdk'')),
                (''score.project'',
                   JStr (or_default (so_project options)
                           (or_default (project_var env) ''default'')))];
          a1 = assign_if (so_value options \<noteq> JUndefined) ''score.value'' (so_value options) a0;
          a2 = assign_if (nonempty_text (so_traceId options)) ''score.trace_id''
                 (JStr (or_default (so_traceId options) [])) a1;
          a3 = assign_if (nonempty_text (so_spanId options)) ''score.span_id''
                 (JStr (or_default (so_spanId options) [])) a2;
          a4 = assign_if (js_truthy (so_label options)) ''score.label'' (so_label options) a3;
          a5 = assign_if (js_truthy (so_comment options)) ''score.comment'' (so_comment options) a4
      in (case (if js_truthy (so_rationale options)
                then (case js_slice 500 ''rationale.slice'' (so_rationale options) of
                        Inl e \<Rightarrow> Inl e
                      | Inr r \<Rightarrow> Inr (dict_assign a5 ''score.rationale'' r))
                else Inr a5) of
            Inl e \<Rightarrow> Inl e
          | Inr a6 \<Rightarrow>
              (case so_metadata options of
                 None \<Rightarrow> Inr a6
               | Some m \<Rightarrow> metadata_attrs env m a6)))"

definition score :: "js_env \<Rightarrow> ScoreOptions \<Rightarrow> thrown + span" where
  "score env options =
     (case score_attrs env options of
        Inl e \<Rightarrow> Inl e
      | Inr attrs \<Rightarrow>
          Inr \<lparr>span_name = ''score.'' @ so_name options, span_attributes = attrs,
               span_status = None, span_exception = None\<rparr>)"

section \<open>The orchestrator (evaluate.ts)\<close>

text \<open>
  Of an \<^verbatim>\<open>EvalDatum\<close> the code reads \<^verbatim>\<open>input\<close> and \<^verbatim>\<open>expected\<close> only; a datum without
  \<^verbatim>\<open>expected\<close> reads as \<^verbatim>\<open>undefined\<close>. In an \<^verbatim>\<open>EvalResult\<close> the keys \<^verbatim>\<open>output\<close> and
  \<^verbatim>\<open>error\<close> exist only once assigned (\<open>None\<close> before). The task and a scorer's
  \<^verbatim>\<open>score\<close> method are functions that return or throw. The dataset is given directly or
  by a producer; \<open>Producer r\<close> holds what the one call of the producer does.
\<close>

record EvalDatum =
  datum_input :: jsval
  datum_expected :: jsval

record EvalResult =
  result_input :: jsval
  result_output :: "jsval option"
  result_expected :: jsval
  result_scores :: "(string \<times> jsval) list"
  result_error :: "string option"

record EvalSummary =
  summary_name :: string
  summary_results :: "EvalResult list"
  summary_averages :: "(string \<times> jsval) list"
  summary_total :: nat
  summary_errors :: nat

record Scorer =
  scorer_name :: string
  scorer_score :: "string \<Rightarrow> string \<Rightarrow> string option \<Rightarrow> thrown + jsval"

datatype dataset_source =
    Direct "EvalDatum list"
  | Producer "thrown + EvalDatum list"

record EvaluateOptions =
  opt_name :: string
  opt_data :: dataset_source
  opt_task :: "jsval \<Rightarrow> thrown + jsval"
  opt_scores :: "Scorer list"
  opt_emitScores :: "bool option"

fun resolve_data :: "dataset_source \<Rightarrow> thrown + EvalDatum list" where
  "resolve_data (Direct ds) = Inr ds"
| "resolve_data (Producer r) = r"

subsection \<open>The task of one item\<close>

datatype task_result =
    TaskDone jsval
  | TaskFailed "jsval option" string

text \<open>
  The \<^verbatim>\<open>catch\<close> block of the task: \<^verbatim>\<open>String(err)\<close> is evaluated before anything is
  recorded; \<open>out\<close> is what \<^verbatim>\<open>evalResult.output\<close> holds by then.
\<close>

definition task_failure ::
  "js_env \<Rightarrow> jsval option \<Rightarrow> thrown \<Rightarrow> span list \<times> (thrown + task_result)" where
  "task_failure env out err =
     (case thrown_String env err of
        Inl e \<Rightarrow> ([], Inl e)
      | Inr msg \<Rightarrow>
          ([\<lparr>span_name = ''eval_task'', span_attributes = [],
             span_status = Some msg, span_exception = Some err\<rparr>],
           Inr (TaskFailed out msg)))"

definition run_task ::
  "js_env \<Rightarrow> (jsval \<Rightarrow> thrown + jsval) \<Rightarrow> jsval \<Rightarrow> span list \<times> (thrown + task_result)" where
  "run_task env task inputVal =
     (case task inputVal of
        Inl err \<Rightarrow> task_failure env None err
      | Inr result \<Rightarrow>
          (case js_String env result of
             Inl err \<Rightarrow> task_failure env (Some result) err
           | Inr s \<Rightarrow>
               ([\<lparr>span_name = ''eval_task'',
                  span_attributes = [(''eval.task.output'', JStr (take 1000 s))],
                  span_status = None, span_exception = None\<rparr>],
                Inr (TaskDone result))))"

subsection \<open>One scorer on one item\<close>

text \<open>
  The \<^verbatim>\<open>try\<close> block of a scorer. It returns the scores of the item and the attributes set
  on the scorer's span so far, and the exception that ended the block, if one did.
\<close>

definition score_attempt ::
  "js_env \<Rightarrow> jsval \<Rightarrow> jsval \<Rightarrow> jsval \<Rightarrow> Scorer \<Rightarrow> (string \<times> jsval) list
     \<Rightarrow> (string \<times> jsval) list \<times> (string \<times> jsval) list \<times> thrown option" where
  "score_attempt env inputVal output expectedVal scorer scores =
     (case js_String env inputVal of Inl e \<Rightarrow> (scores, [], Some e) | Inr a_input \<Rightarrow>
     (case js_String env output of Inl e \<Rightarrow> (scores, [], Some e) | Inr a_output \<Rightarrow>
     (case (if expectedVal \<noteq> JUndefined
            then (case js_String env expectedVal of Inl e \<Rightarrow> Inl e | Inr s \<Rightarrow> Inr (Some s))
            else Inr None) of Inl e \<Rightarrow> (scores, [], Some e) | Inr a_expected \<Rightarrow>
     (case scorer_score scorer a_input a_output a_expected of
        Inl e \<Rightarrow> (scores, [], Some e) | Inr rawResult \<Rightarrow>
     (case adaptScore env (scorer_name scorer) rawResult of
        Inl e \<Rightarrow> (scores, [], Some e) | Inr scoreObj \<Rightarrow>
        (let scores' = dict_assign scores (scorer_name scorer) scoreObj;
             a1 = (if js_get scoreObj ''value'' \<noteq> JUndefined
                   then [(''eval.score.value'', js_get scoreObj ''value'')] else []);
             a2 = (if js_truthy (js_get scoreObj ''label'')
                   then [(''eval.score.label'', js_get scoreObj ''label'')] else [])
         in if js_truthy (js_get scoreObj ''rationale'')
            then (case js_slice 500 ''scoreObj.rationale.slice'' (js_get scoreObj ''rationale'') of
                    Inl e \<Rightarrow> (scores', a1 @ a2, Some e)
                  | Inr r \<Rightarrow> (scores', a1 @ a2 @ [(''eval.score.rationale'', r)], None))
            else (scores', a1 @ a2, None)))))))"

text \<open>
  The scorer's span around the \<^verbatim>\<open>try\<close> block. In the \<^verbatim>\<open>catch\<close> block the warning's
  template literal converts the caught value first, then \<^verbatim>\<open>String(err)\<close> gives the status
  message.
\<close>

definition run_scorer ::
  "js_env \<Rightarrow> jsval \<Rightarrow> jsval \<Rightarrow> jsval \<Rightarrow> Scorer \<Rightarrow> (string \<times> jsval) list
     \<Rightarrow> span list \<times> (thrown + (string \<times> jsval) list)" where
  "run_scorer env inputVal output expectedVal scorer scores =
     (case score_attempt env inputVal output expectedVal scorer scores of
        (scores', attrs, None) \<Rightarrow>
          ([\<lparr>span_name = ''eval_score.'' @ scorer_name scorer,
             span_attributes = (''eval.scorer.name'', JStr (scorer_name scorer)) # attrs,
             span_status = None, span_exception = None\<rparr>],
           Inr scores')
      | (scores', attrs, Some err) \<Rightarrow>
          (case thrown_ToString env err of Inl e \<Rightarrow> ([], Inl e) | Inr w \<Rightarrow>
          (case thrown_String env err of Inl e \<Rightarrow> ([], Inl e) | Inr msg \<Rightarrow>
             ([\<lparr>span_name = ''eval_score.'' @ scorer_name scorer,
                span_attributes = (''eval.scorer.name'', JStr (scorer_name scorer)) # attrs,
                span_status = Some msg, span_exception = Some err\<rparr>],
              Inr scores'))))"

fun run_scorers ::
  "js_env \<Rightarrow> jsval \<Rightarrow> jsval \<Rightarrow> jsval \<Rightarrow> Scorer list \<Rightarrow> (string \<times> jsval) list
     \<Rightarrow> span list \<times> (thrown + (string \<times> jsval) list)" where
  "run_scorers env inputVal output expectedVal [] scores = ([], Inr scores)"
| "run_scorers env inputVal output expectedVal (scorer # rest) scores =
     (case run_scorer env inputVal output expectedVal scorer scores of
        (sp, Inl e) \<Rightarrow> (sp, Inl e)
      | (sp, Inr scores') \<Rightarrow>
          (case run_scorers env inputVal output expectedVal rest scores' of
             (sps, r) \<Rightarrow> (sp @ sps, r)))"

subsection \<open>Emission of the scores of one item\<close>

definition emit_options :: "js_env \<Rightarrow> string \<Rightarrow> nat \<Rightarrow> string \<Rightarrow> jsval \<Rightarrow> ScoreOptions" where
  "emit_options env evalName i scorerName scoreObj =
     \<lparr>so_name = scorerName,
      so_value = js_get scoreObj ''value'',
      so_traceId = Some (fst (item_span_context env i)),
      so_spanId = Some (snd (item_span_context env i)),
      so_label = js_get scoreObj ''label'',
      so_dataType = None,
      so_source = Some ''eval'',
      so_comment = JUndefined,
      so_rationale = js_get scoreObj ''rationale'',
      so_metadata = Some [(''eval_name'', JStr evalName), (''item_index'', JNum (real i))],
      so_project = None\<rparr>"

fun emit_scores ::
  "js_env \<Rightarrow> string \<Rightarrow> nat \<Rightarrow> (string \<times> jsval) list \<Rightarrow> span list \<times> thrown option" where
  "emit_scores env evalName i [] = ([], None)"
| "emit_scores env evalName i (entry # rest) =
     (case score env (emit_options env evalName i (fst entry) (snd entry)) of
        Inr sp \<Rightarrow> (case emit_scores env evalName i rest of (sps, r) \<Rightarrow> (sp # sps, r))
      | Inl err \<Rightarrow>
          (case thrown_ToString env err of
             Inl e \<Rightarrow> ([], Some e)
           | Inr w \<Rightarrow> emit_scores env evalName i rest))"

subsection \<open>One item\<close>

definition emit_enabled :: "EvaluateOptions \<Rightarrow> bool" where
  "emit_enabled options = or_default (opt_emitScores options) True"

definition item_span :: "nat \<Rightarrow> string \<Rightarrow> span" where
  "item_span i input_text =
     \<lparr>span_name = ''eval_item'',
      span_attributes = [(''eval.item.index'', JNum (real i)),
                         (''eval.item.input'', JStr (take 1000 input_text))],
      span_status = None, span_exception = None\<rparr>"

text \<open>
  The body of the loop over the dataset, for the datum at index \<open>i\<close>. It returns the
  \<^verbatim>\<open>EvalResult\<close> pushed to \<^verbatim>\<open>summary.results\<close> and whether \<^verbatim>\<open>summary.errors\<close> was
  incremented. \<^verbatim>\<open>String(inputVal)\<close> is evaluated for the attributes of the item's span,
  before the span starts and outside every \<^verbatim>\<open>try\<close>.
\<close>

definition eval_item ::
  "js_env \<Rightarrow> EvaluateOptions \<Rightarrow> nat \<Rightarrow> EvalDatum \<Rightarrow> span list \<times> (thrown + EvalResult \<times> bool)" where
  "eval_item env options i datum =
     (case js_String env (datum_input datum) of
        Inl e \<Rightarrow> ([], Inl e)
      | Inr input_text \<Rightarrow>
     (case run_task env (opt_task options) (datum_input datum) of
        (sp1, Inl e) \<Rightarrow> (sp1, Inl e)
      | (sp1, Inr (TaskFailed out msg)) \<Rightarrow>
          (sp1 @ [item_span i input_text],
           Inr (\<lparr>result_input = datum_input datum, result_output = out,
                  result_expected = datum_expected datum, result_scores = [],
                  result_error = Some msg\<rparr>, True))
      | (sp1, Inr (TaskDone output)) \<Rightarrow>
     (case run_scorers env (datum_input datum) output (datum_expected datum)
             (opt_scores options) [] of
        (sp2, Inl e) \<Rightarrow> (sp1 @ sp2, Inl e)
      | (sp2, Inr scores) \<Rightarrow>
     (case (if emit_enabled options then emit_scores env (opt_name options) i scores
            else ([], None)) of
        (sp3, Some e) \<Rightarrow> (sp1 @ sp2 @ sp3, Inl e)
      | (sp3, None) \<Rightarrow>
          (sp1 @ sp2 @ sp3 @ [item_span i input_text],
           Inr (\<lparr>result_input = datum_input datum, result_output = Some output,
                  result_expected = datum_expected datum, result_scores = scores,
                  result_error = None\<rparr>, False))))))"

text \<open>
  The loop over the dataset, from index \<open>i\<close>, with \<^verbatim>\<open>summary.results\<close> and
  \<^verbatim>\<open>summary.errors\<close> as they stand.
\<close>

fun eval_items ::
  "js_env \<Rightarrow> EvaluateOptions \<Rightarrow> nat \<Rightarrow> EvalDatum list \<Rightarrow> EvalResult list \<Rightarrow> nat
     \<Rightarrow> span list \<times> (thrown + EvalResult list \<times> nat)" where
  "eval_items env options i [] results errors = ([], Inr (results, errors))"
| "eval_items env options i (datum # rest) results errors =
     (case eval_item env options i datum of
        (sp, Inl e) \<Rightarrow> (sp, Inl e)
      | (sp, Inr (r, failed)) \<Rightarrow>
          (case eval_items env options (Suc i) rest (results @ [r])
                  (if failed then Suc errors else errors) of
             (sps, out) \<Rightarrow> (sp @ sps, out)))"

subsection \<open>Averages\<close>

text \<open>
  \<^verbatim>\<open>if (!scoreTotals[k]) scoreTotals[k] = []; scoreTotals[k].push(v)\<close>. An own property is
  an array. Without one, a name of \<^verbatim>\<open>Object.prototype\<close> reads as the inherited member,
  which is truthy and has no \<^verbatim>\<open>push\<close>.
\<close>

definition totals_push ::
  "(string \<times> jsval list) list \<Rightarrow> string \<Rightarrow> jsval \<Rightarrow> thrown + (string \<times> jsval list) list" where
  "totals_push totals k v =
     (case map_of totals k of
        Some vs \<Rightarrow> Inr (dict_replace k (vs @ [v]) totals)
      | None \<Rightarrow>
          if k \<in> set object_prototype_keys
          then Inl (not_a_function_error ''scoreTotals[scorerName].push'')
          else Inr (dict_assign totals k [v]))"

fun collect_scores ::
  "(string \<times> jsval) list \<Rightarrow> (string \<times> jsval list) list \<Rightarrow> thrown + (string \<times> jsval list) list" where
  "collect_scores [] totals = Inr totals"
| "collect_scores (entry # rest) totals =
     (if js_get (snd entry) ''value'' \<noteq> JUndefined
      then (case totals_push totals (fst entry) (js_get (snd entry) ''value'') of
              Inl e \<Rightarrow> Inl e
            | Inr totals' \<Rightarrow> collect_scores rest totals')
      else collect_scores rest totals)"

fun collect_totals ::
  "EvalResult list \<Rightarrow> (string \<times> jsval list) list \<Rightarrow> thrown + (string \<times> jsval list) list" where
  "collect_totals [] totals = Inr totals"
| "collect_totals (r # rest) totals =
     (case collect_scores (result_scores r) totals of
        Inl e \<Rightarrow> Inl e
      | Inr totals' \<Rightarrow> collect_totals rest totals')"

text \<open>\<^verbatim>\<open>values.reduce((a, b) => a + b, acc)\<close>\<close>

fun js_sum :: "js_env \<Rightarrow> jsval \<Rightarrow> jsval list \<Rightarrow> thrown + jsval" where
  "js_sum env acc [] = Inr acc"
| "js_sum env acc (v # vs) =
     (case js_plus env acc v of Inl e \<Rightarrow> Inl e | Inr acc' \<Rightarrow> js_sum env acc' vs)"

definition average :: "js_env \<Rightarrow> jsval list \<Rightarrow> thrown + jsval" where
  "average env vs =
     (case js_sum env (JNum 0) vs of Inl e \<Rightarrow> Inl e | Inr t \<Rightarrow> js_div env t (length vs))"

text \<open>
  The loop over \<^verbatim>\<open>Object.entries(scoreTotals)\<close>, with \<^verbatim>\<open>summary.averages\<close> and the
  attributes set on the run's span as they stand.
\<close>

fun compute_averages ::
  "js_env \<Rightarrow> (string \<times> jsval list) list \<Rightarrow> (string \<times> jsval) list \<Rightarrow> (string \<times> jsval) list
     \<Rightarrow> thrown + (string \<times> jsval) list \<times> (string \<times> jsval) list" where
  "compute_averages env [] averages attrs = Inr (averages, attrs)"
| "compute_averages env (entry # rest) averages attrs =
     (case average env (snd entry) of
        Inl e \<Rightarrow> Inl e
      | Inr avg \<Rightarrow>
          compute_averages env rest (dict_assign averages (fst entry) avg)
            (attrs @ [(''eval.avg.'' @ fst entry, avg)]))"

subsection \<open>The run\<close>

definition evaluate :: "js_env \<Rightarrow> EvaluateOptions \<Rightarrow> span list \<times> (thrown + EvalSummary)" where
  "evaluate env options =
     (case resolve_data (opt_data options) of
        Inl e \<Rightarrow> ([], Inl e)
      | Inr dataset \<Rightarrow>
     (case eval_items env options 0 dataset [] 0 of
        (sps, Inl e) \<Rightarrow> (sps, Inl e)
      | (sps, Inr (results, errors)) \<Rightarrow>
     (case collect_totals results [] of
        Inl e \<Rightarrow> (sps, Inl e)
      | Inr totals \<Rightarrow>
     (case compute_averages env totals [] [] of
        Inl e \<Rightarrow> (sps, Inl e)
      | Inr (averages, avg_attrs) \<Rightarrow>
          (sps @ [\<lparr>span_name = ''evaluate'',
                    span_attributes =
                      [(''eval.name'', JStr (opt_name options)),
                       (''eval.dataset_size'', JNum (real (length dataset))),
                       (''eval.scorer_count'', JNum (real (length (opt_scores options))))]
                      @ avg_attrs @ [(''eval.errors'', JNum (real errors))],
                    span_status = None, span_exception = None\<rparr>],
           Inr \<lparr>summary_name = opt_name options, summary_results = results,
                 summary_averages = averages, summary_total = length dataset,
                 summary_errors = errors\<rparr>)))))"

section \<open>Predicates of the properties\<close>

text \<open>A text of at most \<open>n\<close> code units; and an array, of whatever content.\<close>

fun text_within :: "nat \<Rightarrow> jsval \<Rightarrow> bool" where
  "text_within n (JStr s) = (length s \<le> n)"
| "text_within n _ = False"

fun is_array :: "jsval \<Rightarrow> bool" where
  "is_array (JArr xs) = True"
| "is_array _ = False"

text \<open>
  The values a run recorded under the key \<open>s\<close>: for each result in order, the
  \<^verbatim>\<open>value\<close> of each Score stored under \<open>s\<close> in its \<^verbatim>\<open>scores\<close>, unless it is
  \<^verbatim>\<open>undefined\<close>.
\<close>

definition recorded_values :: "string \<Rightarrow> EvalResult list \<Rightarrow> jsval list" where
  "recorded_values s results =
     concat (map (\<lambda>r. map (\<lambda>entry. js_get (snd entry) ''value'')
                        (filter (\<lambda>entry. fst entry = s \<and> js_get (snd entry) ''value'' \<noteq> JUndefined)
                           (result_scores r)))
               results)"

text \<open>
  The two attributes that carry a rationale: \<^verbatim>\<open>eval.score.rationale\<close> on a scorer's span
  and \<^verbatim>\<open>score.rationale\<close> on the span \<^verbatim>\<open>score()\<close> creates. \<open>attrs_ok\<close> holds of a list of
  attributes in which each of them is a text of at most 500 code units, or an array.
\<close>

definition rationale_key :: "string \<Rightarrow> bool" where
  "rationale_key k = (k = ''eval.score.rationale'' \<or> k = ''score.rationale'')"

definition attrs_ok :: "(string \<times> jsval) list \<Rightarrow> bool" where
  "attrs_ok d =
     list_all (\<lambda>kv. rationale_key (fst kv) \<longrightarrow> text_within 500 (snd kv) \<or> is_array (snd kv)) d"

definition spans_ok :: "span list \<Rightarrow> bool" where
  "spans_ok sps = list_all (\<lambda>sp. attrs_ok (span_attributes sp)) sps"



definition values_of_key :: "string \<Rightarrow> (string \<times> jsval) list \<Rightarrow> jsval list" where
  "values_of_key s entries =
     map (\<lambda>entry. js_get (snd entry) ''value'')
       (filter (\<lambda>entry. fst entry = s \<and> js_get (snd entry) ''value'' \<noteq> JUndefined) entries)"



section \<open>Example runs\<close>

text \<open>
  An environment for the examples. Its sums and quotients are the exact ones, which is
  what double arithmetic gives on the numbers of the examples (\<open>0\<close>, \<open>1\<close>, \<open>1 / 2\<close>);
  it gives the decimal text of a natural number and the value of a text of decimal digits,
  which is all the examples convert. The properties below hold for every environment.
\<close>

fun nat_text :: "nat \<Rightarrow> string" where
  "nat_text n =
     (if n < 10 then [char_of (48 + n)] else nat_text (n div 10) @ [char_of (48 + n mod 10)])"

definition example_env :: js_env where
  "example_env =
     \<lparr>number_add = (\<lambda>x y. JNum (x + y)),
      number_div = (\<lambda>x y. x / y),
      number_text = (\<lambda>x. nat_text (nat \<lfloor>x\<rfloor>)),
      text_number = (\<lambda>s. if list_all is_digit s then JNum (real (decimal_value s)) else JNaN),
      project_var = None,
      item_span_context = (\<lambda>i. (''4bf92f3577b34da6a3ce929d0e0e4736'', ''00f067aa0ba902b7''))\<rparr>"

text \<open>\<^verbatim>\<open>{ name: "embedded", value: 1 }\<close>\<close>

definition embedded_name_score :: jsval where
  "embedded_name_score = JObj [(''name'', JStr ''embedded''), (''value'', JNum 1)]"

text \<open>\<^verbatim>\<open>{ name: "exact_match", value: 1, label: "match" }\<close>\<close>

definition labelled_score :: jsval where
  "labelled_score =
     JObj [(''name'', JStr ''exact_match''), (''value'', JNum 1), (''label'', JStr ''match'')]"

text \<open>\<^verbatim>\<open>{ name: "pending", value: undefined }\<close>\<close>

definition undefined_value_score :: jsval where
  "undefined_value_score = JObj [(''name'', JStr ''pending''), (''value'', JUndefined)]"

text \<open>\<^verbatim>\<open>[Symbol("x")]\<close>\<close>

definition symbol_array :: jsval where
  "symbol_array = JArr [JSym ''x'']"

text \<open>The dataset of the examples: \<^verbatim>\<open>[{ input: "2+2?", expected: "4" }]\<close>.\<close>

definition one_question :: "EvalDatum list" where
  "one_question = [\<lparr>datum_input = JStr ''2+2?'', datum_expected = JStr ''4''\<rparr>]"

definition two_questions :: "EvalDatum list" where
  "two_questions =
     [\<lparr>datum_input = JStr ''2+2?'', datum_expected = JStr ''4''\<rparr>,
      \<lparr>datum_input = JStr ''3+3?'', datum_expected = JStr ''6''\<rparr>]"

text \<open>A task that answers \<^verbatim>\<open>"4"\<close>, and the scorer \<^verbatim>\<open>exact_match\<close> of the examples.\<close>

definition answer_four :: "jsval \<Rightarrow> thrown + jsval" where
  "answer_four inputVal = Inr (JStr ''4'')"

definition exact_match :: Scorer where
  "exact_match =
     \<lparr>scorer_name = ''exact_match'',
      scorer_score = (\<lambda>a_input a_output a_expected.
        Inr (JObj [(''name'', JStr ''exact_match''),
                   (''value'', JNum (if Some a_output = a_expected then 1 else 0))]))\<rparr>"

definition exact_match_options :: EvaluateOptions where
  "exact_match_options =
     \<lparr>opt_name = ''qa-eval'', opt_data = Direct two_questions, opt_task = answer_four,
      opt_scores = [exact_match], opt_emitScores = None\<rparr>"



text \<open>A task that returns an object without a prototype: \<^verbatim>\<open>() => Object.create(null)\<close>.\<close>

definition bare_output_task :: "jsval \<Rightarrow> thrown + jsval" where
  "bare_output_task inputVal = Inr (JBare [])"

definition bare_output_options :: EvaluateOptions where
  "bare_output_options =
     \<lparr>opt_name = ''qa-eval'', opt_data = Direct one_question, opt_task = bare_output_task,
      opt_scores = [exact_match], opt_emitScores = None\<rparr>"

text \<open>A scorer that returns \<^verbatim>\<open>[Symbol("x")]\<close>.\<close>

definition symbol_array_scorer :: Scorer where
  "symbol_array_scorer =
     \<lparr>scorer_name = ''tags'',
      scorer_score = (\<lambda>a_input a_output a_expected. Inr symbol_array)\<rparr>"

definition symbol_array_options :: EvaluateOptions where
  "symbol_array_options =
     \<lparr>opt_name = ''qa-eval'', opt_data = Direct one_question, opt_task = answer_four,
      opt_scores = [symbol_array_scorer, exact_match], opt_emitScores = None\<rparr>"

text \<open>
  A dataset given directly whose input is an object without a prototype, as
  \<^verbatim>\<open>Object.assign(Object.create(null), { q: "2+2?" })\<close> makes one.
\<close>

definition bare_input_options :: EvaluateOptions where
  "bare_input_options =
     \<lparr>opt_name = ''qa-eval'',
      opt_data = Direct [\<lparr>datum_input = JBare [(''q'', JStr ''2+2?'')],
                          datum_expected = JStr ''4''\<rparr>],
      opt_task = answer_four, opt_scores = [exact_match], opt_emitScores = None\<rparr>"







text \<open>
  A dataset given directly, whose second input is an object without a prototype; and the
  dataset of \<open>exact_match_options\<close> given by a producer.
\<close>

definition second_input_bare :: "EvalDatum list" where
  "second_input_bare =
     [\<lparr>datum_input = JStr ''2+2?'', datum_expected = JStr ''4''\<rparr>,
      \<lparr>datum_input = JBare [(''q'', JStr ''3+3?'')], datum_expected = JStr ''6''\<rparr>]"

definition second_input_bare_options :: EvaluateOptions where
  "second_input_bare_options =
     \<lparr>opt_name = ''qa-eval'', opt_data = Direct second_input_bare, opt_task = answer_four,
      opt_scores = [exact_match], opt_emitScores = None\<rparr>"

definition produced_options :: EvaluateOptions where
  "produced_options =
     \<lparr>opt_name = ''qa-eval'', opt_data = Producer (Inr two_questions), opt_task = answer_four,
      opt_scores = [exact_match], opt_emitScores = None\<rparr>"

text \<open>What the run \<open>exact_match_options\<close> returns.\<close>

definition exact_match_summary :: EvalSummary where
  "exact_match_summary =
     \<lparr>summary_name = ''qa-eval'',
      summary_results =
        [\<lparr>result_input = JStr ''2+2?'', result_output = Some (JStr ''4''),
           result_expected = JStr ''4'',
           result_scores =
             [(''exact_match'', JObj [(''name'', JStr ''exact_match''), (''value'', JNum 1)])],
           result_error = None\<rparr>,
         \<lparr>result_input = JStr ''3+3?'', result_output = Some (JStr ''4''),
           result_expected = JStr ''6'',
           result_scores =
             [(''exact_match'', JObj [(''name'', JStr ''exact_match''), (''value'', JNum 0)])],
           result_error = None\<rparr>],
      summary_averages = [(''exact_match'', JNum (1 / 2))],
      summary_total = 2, summary_errors = 0\<rparr>"


text \<open>What the run \<open>bare_output_options\<close> returns.\<close>

definition bare_output_summary :: EvalSummary where
  "bare_output_summary =
     \<lparr>summary_name = ''qa-eval'',
      summary_results =
        [\<lparr>result_input = JStr ''2+2?'', result_output = Some (JBare []),
           result_expected = JStr ''4'', result_scores = [],
           result_error = Some ''TypeError: Cannot convert object to primitive value''\<rparr>],
      summary_averages = [],
      summary_total = 1, summary_errors = 1\<rparr>"

text \<open>What the run \<open>symbol_array_options\<close> returns.\<close>

definition symbol_array_summary :: EvalSummary where
  "symbol_array_summary =
     \<lparr>summary_name = ''qa-eval'',
      summary_results =
        [\<lparr>result_input = JStr ''2+2?'', result_output = Some (JStr ''4''),
           result_expected = JStr ''4'',
           result_scores =
             [(''exact_match'', JObj [(''name'', JStr ''exact_match''), (''value'', JNum 1)])],
           result_error = None\<rparr>],
      summary_averages = [(''exact_match'', JNum 1)],
      summary_total = 1, summary_errors = 0\<rparr>"

section \<open>Properties of the score adapter\<close>

lemma adaptScore_isScore: "isScore v \<Longrightarrow> adaptScore env scorerName v = Inr v"
  by (simp add: adaptScore_def)

lemma adaptScore_not_isScore_name:
  assumes "\<not> isScore result" and "adaptScore env scorerName result = Inr s"
  shows "js_get s ''name'' = JStr scorerName"
  using assms
  by (auto simp: adaptScore_def js_get_def split: if_splits sum.splits)

text \<open>
  Claim C1, as amended. The Score that \<^verbatim>\<open>adaptScore\<close> returns carries the scorer's declared
  name whenever the raw result does not already have the Score shape; a raw result that has
  the shape is returned as it is, so the name is the one embedded in it.
\<close>

theorem adaptScore_name:
  assumes "adaptScore env scorerName result = Inr s"
  shows "js_get s ''name'' = (if isScore result then js_get result ''name'' else JStr scorerName)"
proof (cases "isScore result")
  case True
  with assms have "s = result" by (simp add: adaptScore_isScore)
  with True show ?thesis by simp
next
  case False
  with assms show ?thesis by (simp add: adaptScore_not_isScore_name)
qed

theorem adaptScore_name_witness:
  "adaptScore example_env ''declared'' (JNum (3 / 4))
     = Inr (JObj [(''name'', JStr ''declared''), (''value'', JNum (3 / 4))])
   \<and> js_get (JObj [(''name'', JStr ''declared''), (''value'', JNum (3 / 4))]) ''name''
     = JStr ''declared''"
proof -
  have h: "adaptScore example_env ''declared'' (JNum (3 / 4))
             = Inr (JObj [(''name'', JStr ''declared''), (''value'', JNum (3 / 4))])"
    by (simp add: adaptScore_def isScore_def isAutoEvalsResult_def isPhoenixEvalsResult_def)
  have "\<not> isScore (JNum (3 / 4))" by (simp add: isScore_def)
  with adaptScore_name [OF h] h show ?thesis by simp
qed

text \<open>
  The claim as first stated fails: called for the scorer \<^verbatim>\<open>declared\<close> with the raw result
  \<^verbatim>\<open>{ name: "embedded", value: 1 }\<close>, the adapter returns a Score named \<^verbatim>\<open>embedded\<close>.
\<close>

theorem adaptScore_name_counterexample:
  "adaptScore example_env ''declared'' embedded_name_score = Inr embedded_name_score
   \<and> js_get embedded_name_score ''name'' = JStr ''embedded''
   \<and> JStr ''embedded'' \<noteq> JStr ''declared''"
  by (simp add: adaptScore_def isScore_def embedded_name_score_def js_get_def has_key_def)

text \<open>
  Claim C7. A value that has the Score shape (an object with a textual \<^verbatim>\<open>name\<close> and a key
  \<^verbatim>\<open>value\<close> or \<^verbatim>\<open>label\<close>) is returned unchanged, whatever the scorer's name.
\<close>

theorem adaptScore_idempotent:
  assumes "isScore v"
  shows "adaptScore env scorerName v = Inr v"
  using assms by (rule adaptScore_isScore)

theorem adaptScore_idempotent_witness:
  "isScore labelled_score \<and> adaptScore example_env ''other'' labelled_score = Inr labelled_score"
proof -
  have h: "isScore labelled_score"
    by (simp add: isScore_def labelled_score_def js_get_def has_key_def)
  from h adaptScore_idempotent [OF h] show ?thesis by simp
qed

text \<open>
  Claim C10. The shape test looks for the keys, not for defined values: an object with a
  textual \<^verbatim>\<open>name\<close> whose key \<^verbatim>\<open>value\<close> (or \<^verbatim>\<open>label\<close>) is present and holds
  \<^verbatim>\<open>undefined\<close> is returned unchanged.
\<close>

theorem adaptScore_undefined_value_unchanged:
  assumes "plain_object obj"
    and "map_of (own_props obj) ''name'' = Some (JStr n)"
    and "map_of (own_props obj) ''value'' = Some JUndefined
         \<or> map_of (own_props obj) ''label'' = Some JUndefined"
  shows "adaptScore env scorerName obj = Inr obj"
proof -
  from assms(1) have "object_like obj" by (cases obj) simp_all
  moreover from assms(2) have "is_string (js_get obj ''name'')" by (simp add: js_get_def)
  moreover from assms(3) have "has_key ''value'' obj \<or> has_key ''label'' obj"
    by (auto simp: has_key_def)
  ultimately have "isScore obj" by (simp add: isScore_def)
  then show ?thesis by (rule adaptScore_isScore)
qed

theorem adaptScore_undefined_value_unchanged_witness:
  "plain_object undefined_value_score
   \<and> map_of (own_props undefined_value_score) ''name'' = Some (JStr ''pending'')
   \<and> map_of (own_props undefined_value_score) ''value'' = Some JUndefined
   \<and> js_get undefined_value_score ''label'' = JUndefined
   \<and> adaptScore example_env ''checker'' undefined_value_score = Inr undefined_value_score"
proof -
  have h1: "plain_object undefined_value_score" by (simp add: undefined_value_score_def)
  have h2: "map_of (own_props undefined_value_score) ''name'' = Some (JStr ''pending'')"
    by (simp add: undefined_value_score_def)
  have h3: "map_of (own_props undefined_value_score) ''value'' = Some JUndefined"
    by (simp add: undefined_value_score_def)
  have h4: "js_get undefined_value_score ''label'' = JUndefined"
    by (simp add: undefined_value_score_def js_get_def)
  from adaptScore_undefined_value_unchanged [OF h1 h2 disjI1 [OF h3]] h1 h2 h3 h4
  show ?thesis by simp
qed

text \<open>
  When the adapter throws: only in its last case, on a value that \<^verbatim>\<open>String\<close> cannot
  render; in the embedding such a value is an array.
\<close>

lemma adaptScore_throws_iff:
  "(\<exists>e. adaptScore env scorerName result = Inl e)
     = (\<not> isScore result \<and> \<not> isAutoEvalsResult result \<and> \<not> isPhoenixEvalsResult result
        \<and> \<not> is_number result \<and> \<not> plain_object result \<and> (\<exists>e. js_String env result = Inl e))"
  by (auto simp: adaptScore_def split: sum.splits)

lemma adaptScore_throws_only_arrays:
  assumes "adaptScore env scorerName result = Inl e"
  shows "\<exists>xs. result = JArr xs"
proof -
  from assms have "\<not> plain_object result" "\<not> is_number result" and s: "\<exists>e. js_String env result = Inl e"
    using adaptScore_throws_iff [of env scorerName result] by auto
  then show ?thesis
    by (cases result) (auto simp: js_String_def)
qed

text \<open>
  Claim C5. The adapter's last case renders the raw value with \<^verbatim>\<open>String(result)\<close>. For the
  array \<^verbatim>\<open>[Symbol("x")]\<close> no earlier case applies and the rendering throws, so the adapter
  throws instead of returning a Score.
\<close>

theorem adaptScore_symbol_array_throws:
  "adaptScore example_env ''tags'' symbol_array = Inl symbol_to_string_error"
  by (simp add: adaptScore_def symbol_array_def isScore_def isAutoEvalsResult_def
      isPhoenixEvalsResult_def js_get_def has_key_def js_String_def)

section \<open>Dictionaries\<close>


lemma map_of_dict_replace:
  "map_of (dict_replace k v d) k' = (if k' = k \<and> map_of d k \<noteq> None then Some v else map_of d k')"
  by (induction d) auto



lemma map_of_split_insert:
  assumes "map_of d k = None"
  shows "map_of (takeWhile P d @ [(k, v)] @ dropWhile P d) k' = (if k' = k then Some v else map_of d k')"
proof -
  have d: "map_of d = map_of (dropWhile P d) ++ map_of (takeWhile P d)"
    by (metis map_of_append takeWhile_dropWhile_id)
  have t: "map_of (takeWhile P d) k = None"
    using assms by (metis d map_add_None)
  show ?thesis
    using t d by (auto simp: map_add_def split: option.splits)
qed

lemma map_of_append_entry:
  assumes "map_of d k = None"
  shows "map_of (d @ [(k, v)]) k' = (if k' = k then Some v else map_of d k')"
  using assms by (auto simp: map_add_def split: option.splits)

lemma map_of_dict_assign:
  assumes proto: "k \<noteq> ''__proto__''"
  shows "map_of (dict_assign d k v) k' = (if k' = k then Some v else map_of d k')"
proof -
  show ?thesis
  proof (cases "map_of d k")
    case (Some x)
    with proto show ?thesis by (simp add: dict_assign_def map_of_dict_replace)
  next
    case None
    show ?thesis
    proof (cases "array_index k")
      case no_index: None
      have "dict_assign d k v = d @ [(k, v)]"
        using proto None no_index by (simp add: dict_assign_def)
      with proto map_of_append_entry [OF None] show ?thesis by simp
    next
      case (Some n)
      have "dict_assign d k v = takeWhile (index_below n) d @ [(k, v)] @ dropWhile (index_below n) d"
        using proto None Some by (simp add: dict_assign_def)
      with proto map_of_split_insert [OF None] show ?thesis by simp
    qed
  qed
qed



lemma dict_assign_proto:
  "map_of d ''__proto__'' = None \<Longrightarrow> dict_assign d ''__proto__'' v = d"
  by (simp add: dict_assign_def)

section \<open>Properties of the run\<close>

lemma eval_item_input:
  "eval_item env options i datum = (sp, Inr (r, failed)) \<Longrightarrow> result_input r = datum_input datum"
  by (auto simp: eval_item_def split: sum.splits prod.splits task_result.splits option.splits if_splits)

lemma eval_items_inputs:
  "eval_items env options i ds results errors = (sps, Inr (results', errors'))
   \<Longrightarrow> map result_input results' = map result_input results @ map datum_input ds"
proof (induction ds arbitrary: i results errors sps)
  case Nil
  then show ?case by simp
next
  case (Cons d ds)
  from Cons.prems obtain sp r failed sps' where
    it: "eval_item env options i d = (sp, Inr (r, failed))" and
    rest: "eval_items env options (Suc i) ds (results @ [r]) (if failed then Suc errors else errors)
             = (sps', Inr (results', errors'))"
    by (auto split: sum.splits prod.splits)
  from Cons.IH [OF rest] eval_item_input [OF it] show ?case by simp
qed

lemma evaluate_returns:
  assumes "snd (evaluate env options) = Inr summary"
  obtains dataset sps errors where
    "resolve_data (opt_data options) = Inr dataset"
    "eval_items env options 0 dataset [] 0 = (sps, Inr (summary_results summary, errors))"
    "summary_total summary = length dataset"
    "summary_errors summary = errors"
  using assms
  by (auto simp: evaluate_def split: sum.splits prod.splits)

text \<open>
  Claim C6, as amended. When a run returns a summary, for a dataset given directly or
  returned by the producer, \<^verbatim>\<open>total\<close> is the length of that dataset, \<^verbatim>\<open>results\<close> has that
  many elements, and the result at index \<open>i\<close> carries the input of the datum at index
  \<open>i\<close>.
\<close>

theorem evaluate_total_results_inputs:
  assumes "snd (evaluate env options) = Inr summary"
    and "opt_data options = Direct dataset \<or> opt_data options = Producer (Inr dataset)"
  shows "summary_total summary = length dataset
         \<and> length (summary_results summary) = length dataset
         \<and> (\<forall>i<length dataset.
               result_input (summary_results summary ! i) = datum_input (dataset ! i))"
proof -
  from assms(2) have d: "resolve_data (opt_data options) = Inr dataset" by auto
  from assms(1) obtain dataset' sps errors where
    d': "resolve_data (opt_data options) = Inr dataset'" and
    run: "eval_items env options 0 dataset' [] 0 = (sps, Inr (summary_results summary, errors))" and
    t: "summary_total summary = length dataset'"
    by (rule evaluate_returns)
  from d d' have same: "dataset' = dataset" by simp
  from eval_items_inputs [OF run] same
  have m: "map result_input (summary_results summary) = map datum_input dataset" by simp
  then have len: "length (summary_results summary) = length dataset"
    by (metis length_map)
  have "result_input (summary_results summary ! i) = datum_input (dataset ! i)"
    if "i < length dataset" for i
    using m len that by (metis nth_map)
  with t same len show ?thesis by auto
qed

theorem evaluate_total_results_inputs_witness:
  "snd (evaluate example_env exact_match_options) = Inr exact_match_summary
   \<and> opt_data exact_match_options = Direct two_questions
   \<and> snd (evaluate example_env produced_options) = Inr exact_match_summary
   \<and> opt_data produced_options = Producer (Inr two_questions)
   \<and> summary_total exact_match_summary = length two_questions
   \<and> length (summary_results exact_match_summary) = length two_questions
   \<and> result_input (summary_results exact_match_summary ! 0) = datum_input (two_questions ! 0)
   \<and> result_input (summary_results exact_match_summary ! 1) = datum_input (two_questions ! 1)"
proof -
  have h: "snd (evaluate example_env exact_match_options) = Inr exact_match_summary"
    by code_simp
  have d: "opt_data exact_match_options = Direct two_questions"
    by (simp add: exact_match_options_def)
  have h': "snd (evaluate example_env produced_options) = Inr exact_match_summary"
    by code_simp
  have d': "opt_data produced_options = Producer (Inr two_questions)"
    by (simp add: produced_options_def)
  note direct = evaluate_total_results_inputs [OF h disjI1 [OF d]]
  note produced = evaluate_total_results_inputs [OF h' disjI2 [OF d']]
  from direct produced have t: "summary_total exact_match_summary = length two_questions"
    and l: "length (summary_results exact_match_summary) = length two_questions"
    and i: "\<And>i. i < length two_questions \<Longrightarrow>
              result_input (summary_results exact_match_summary ! i) = datum_input (two_questions ! i)"
    by blast+
  have two: "0 < length two_questions" "1 < length two_questions"
    by (simp_all add: two_questions_def)
  from h d h' d' t l i [OF two(1)] i [OF two(2)] show ?thesis by blast
qed

text \<open>
  The claim as first stated fails: it promises a summary for every dataset, and for the
  dataset \<open>second_input_bare\<close>, given directly, the run ends by an exception and returns
  none.
\<close>

theorem evaluate_total_results_inputs_counterexample:
  "opt_data second_input_bare_options = Direct second_input_bare
   \<and> snd (evaluate example_env second_input_bare_options) = Inl to_primitive_error"
  by code_simp

subsection \<open>Rationales in spans\<close>


lemma spans_ok_simps [simp]:
  "spans_ok []"
  "spans_ok (sp # sps) = (attrs_ok (span_attributes sp) \<and> spans_ok sps)"
  "spans_ok (sps @ sps') = (spans_ok sps \<and> spans_ok sps')"
  by (simp_all add: spans_ok_def)






















subsection \<open>Averages\<close>

lemma recorded_values_simps [simp]:
  "recorded_values s [] = []"
  "recorded_values s (r # rs) = values_of_key s (result_scores r) @ recorded_values s rs"
  by (simp_all add: recorded_values_def values_of_key_def)

lemma values_of_key_simps [simp]:
  "values_of_key s [] = []"
  "values_of_key s (entry # rest) =
     (if fst entry = s \<and> js_get (snd entry) ''value'' \<noteq> JUndefined
      then js_get (snd entry) ''value'' # values_of_key s rest else values_of_key s rest)"
  by (simp_all add: values_of_key_def)














subsection \<open>Exceptions\<close>

lemma evaluate_producer_throws:
  "opt_data options = Producer (Inl e) \<Longrightarrow> evaluate env options = ([], Inl e)"
  by (simp add: evaluate_def)

text \<open>
  Claim C9. The dataset of \<open>bare_input_options\<close> is given directly, and its one input is an
  object without a prototype. \<^verbatim>\<open>String(inputVal)\<close>, evaluated for the attributes of the item's
  span outside every \<^verbatim>\<open>try\<close>, throws, and the exception leaves \<^verbatim>\<open>evaluate\<close>.
\<close>

theorem evaluate_throws_on_direct_dataset:
  "opt_data bare_input_options
     = Direct [\<lparr>datum_input = JBare [(''q'', JStr ''2+2?'')], datum_expected = JStr ''4''\<rparr>]
   \<and> snd (evaluate example_env bare_input_options) = Inl to_primitive_error"
  by code_simp

text \<open>
  An item whose task throws a value that has a text: the result carries that text as
  \<^verbatim>\<open>error\<close>, no \<^verbatim>\<open>output\<close> and no scores; only the task's span and the item's span are
  ended. In a run that returns, \<^verbatim>\<open>summary.errors\<close> is the number of results that carry
  an \<^verbatim>\<open>error\<close>.
\<close>

lemma eval_item_task_throws:
  assumes "opt_task options (datum_input datum) = Inl err"
    and "js_String env (datum_input datum) = Inr t"
    and "thrown_String env err = Inr msg"
  shows "eval_item env options i datum =
           ([\<lparr>span_name = ''eval_task'', span_attributes = [],
              span_status = Some msg, span_exception = Some err\<rparr>, item_span i t],
            Inr (\<lparr>result_input = datum_input datum, result_output = None,
                   result_expected = datum_expected datum, result_scores = [],
                   result_error = Some msg\<rparr>, True))"
  using assms by (simp add: eval_item_def run_task_def task_failure_def)

lemma eval_items_errors:
  "eval_items env options i ds results errors = (sps, Inr (results', errors'))
   \<Longrightarrow> errors' + length (filter (\<lambda>r. result_error r \<noteq> None) results)
        = errors + length (filter (\<lambda>r. result_error r \<noteq> None) results')"
proof (induction ds arbitrary: i results errors sps)
  case Nil
  then show ?case by simp
next
  case (Cons d ds)
  from Cons.prems obtain sp r failed sps' where
    it: "eval_item env options i d = (sp, Inr (r, failed))" and
    rest: "eval_items env options (Suc i) ds (results @ [r]) (if failed then Suc errors else errors)
             = (sps', Inr (results', errors'))"
    by (auto split: sum.splits prod.splits)
  from it have "failed = (result_error r \<noteq> None)"
    by (auto simp: eval_item_def split: sum.splits prod.splits task_result.splits option.splits if_splits)
  with Cons.IH [OF rest] show ?case by (auto split: if_splits)
qed

lemma evaluate_errors_count:
  assumes "snd (evaluate env options) = Inr summary"
  shows "summary_errors summary
           = length (filter (\<lambda>r. result_error r \<noteq> None) (summary_results summary))"
proof -
  from assms obtain dataset sps errors where
    "eval_items env options 0 dataset [] 0 = (sps, Inr (summary_results summary, errors))"
    "summary_errors summary = errors"
    by (rule evaluate_returns)
  with eval_items_errors [of env options 0 dataset "[]" 0] show ?thesis by simp
qed

text \<open>
  Claim C3. The task of \<open>bare_output_options\<close> returns an object without a prototype and
  does not throw. \<^verbatim>\<open>String(output)\<close>, evaluated inside the task's \<^verbatim>\<open>try\<close> block for the
  span attribute, throws; the item is recorded with both \<^verbatim>\<open>output\<close> and \<^verbatim>\<open>error\<close>, its
  scorers are skipped, and \<^verbatim>\<open>summary.errors\<close> is 1 although no task threw.
\<close>

theorem returned_output_counted_as_error:
  "opt_task bare_output_options (JStr ''2+2?'') = Inr (JBare [])
   \<and> snd (evaluate example_env bare_output_options) = Inr bare_output_summary
   \<and> summary_errors bare_output_summary = 1"
  by code_simp

text \<open>
  One scorer on an item without \<^verbatim>\<open>expected\<close>: a scorer that throws an \<^verbatim>\<open>Error\<close> leaves
  the scores of the item as they are; a scorer that returns a value the adapter converts
  stores the Score under its name and leaves the other keys as they are.
\<close>

lemma run_scorer_throwing:
  assumes "js_String env inputVal = Inr a" and "js_String env out = Inr b"
    and "expectedVal = JUndefined"
    and "scorer_score scorer a b None = Inl (ThrownError n m)"
  shows "snd (run_scorer env inputVal out expectedVal scorer scores) = Inr scores"
  using assms by (simp add: run_scorer_def score_attempt_def)

lemma run_scorer_returning:
  assumes "js_String env inputVal = Inr a" and "js_String env out = Inr b"
    and "expectedVal = JUndefined"
    and "scorer_score scorer a b None = Inr raw"
    and "adaptScore env (scorer_name scorer) raw = Inr scoreObj"
    and "scorer_name scorer \<noteq> ''__proto__''"
  shows "\<exists>scores'. snd (run_scorer env inputVal out expectedVal scorer scores) = Inr scores'
           \<and> map_of scores' (scorer_name scorer) = Some scoreObj
           \<and> (\<forall>k. k \<noteq> scorer_name scorer \<longrightarrow> map_of scores' k = map_of scores k)"
proof -
  have sl: "(\<exists>r. js_slice 500 w v = Inr r) \<or> (\<exists>n m. js_slice 500 w v = Inl (ThrownError n m))" for w v
    by (cases v) (auto simp: not_a_function_error_def)
  show ?thesis
    using assms sl [of "''scoreObj.rationale.slice''" "js_get scoreObj ''rationale''"]
    by (auto simp: run_scorer_def score_attempt_def Let_def map_of_dict_assign)
qed

text \<open>
  Claim C4. The first scorer of \<open>symbol_array_options\<close> returns \<^verbatim>\<open>[Symbol("x")]\<close> and does
  not throw; the task succeeds. The adapter throws on that value, inside the scorer's
  \<^verbatim>\<open>try\<close> block, and the scores of the item hold no entry under the scorer's name
  \<^verbatim>\<open>tags\<close>.
\<close>

theorem returning_scorer_without_entry:
  "scorer_score symbol_array_scorer ''2+2?'' ''4'' (Some ''4'') = Inr symbol_array
   \<and> snd (evaluate example_env symbol_array_options) = Inr symbol_array_summary
   \<and> map_of (result_scores (hd (summary_results symbol_array_summary))) ''tags'' = None"
  by code_simp

end
